theory Spec2Isabelle
  imports Main "HOL-Library.Sublist"
begin

section \<open>Values of the JavaScript runtime\<close>

text \<open>
  Byte buffers (\<^verbatim>\<open>Uint8Array\<close>, \<^verbatim>\<open>Buffer\<close>) and JavaScript strings are both lists of
  8-bit characters here; no claim depends on characters beyond Latin-1.
\<close>

type_synonym bytes = string

text \<open>
  A thrown value is either an \<^verbatim>\<open>Error\<close> instance with its message or anything else.
  Both handlers report \<^verbatim>\<open>error instanceof Error ? error.message : "Unknown error"\<close>.
\<close>

datatype thrown = Error string | NonError

definition error_details :: "thrown \<Rightarrow> string" where
  "error_details err = (case err of Error message \<Rightarrow> message | NonError \<Rightarrow> ''Unknown error'')"

subsection \<open>\<^verbatim>\<open>parseInt\<close> with no radix argument\<close>

text \<open>
  ECMAScript \<^verbatim>\<open>parseInt(string)\<close>: leading white space is skipped, one sign is read, a
  \<^verbatim>\<open>0x\<close>/\<^verbatim>\<open>0X\<close> prefix selects radix 16 (otherwise 10), the longest prefix of digits of
  that radix is the numeral, and the result is \<^verbatim>\<open>NaN\<close> when that prefix is empty.
  The result is \<open>None\<close> for \<^verbatim>\<open>NaN\<close> and the mathematical integer otherwise: the handlers
  only compare it with 0, 1 and 2, which rounding to a double does not change.
\<close>

definition is_js_space :: "char \<Rightarrow> bool" where
  "is_js_space c = (c \<in> set [CHR 0x09, CHR 0x0A, CHR 0x0B, CHR 0x0C, CHR 0x0D, CHR 0x20, CHR 0xA0])"

definition digit_value :: "char \<Rightarrow> nat option" where
  "digit_value c =
     (let n = (of_char c :: nat)
      in if 48 \<le> n \<and> n \<le> 57 then Some (n - 48)
         else if 97 \<le> n \<and> n \<le> 122 then Some (n - 87)
         else if 65 \<le> n \<and> n \<le> 90 then Some (n - 55)
         else None)"

definition radix_digit :: "nat \<Rightarrow> char \<Rightarrow> bool" where
  "radix_digit R c = (case digit_value c of None \<Rightarrow> False | Some v \<Rightarrow> v < R)"

definition numeral_value :: "nat \<Rightarrow> string \<Rightarrow> nat" where
  "numeral_value R Z =
     foldl (\<lambda>acc c. case digit_value c of None \<Rightarrow> acc | Some v \<Rightarrow> acc * R + v) 0 Z"

definition parseInt :: "string \<Rightarrow> int option" where
  "parseInt inputString =
     (let S = dropWhile is_js_space inputString;
          sign = (if take 1 S = ''-'' then (- 1 :: int) else 1);
          S1 = (if take 1 S = ''+'' \<or> take 1 S = ''-'' then drop 1 S else S);
          hex = (take 2 S1 = ''0x'' \<or> take 2 S1 = ''0X'');
          S2 = (if hex then drop 2 S1 else S1);
          R = (if hex then 16 else 10);
          Z = takeWhile (radix_digit R) S2
      in if Z = [] then None else Some (sign * int (numeral_value R Z)))"

text \<open>Comparisons with \<^verbatim>\<open>NaN\<close> are false, whatever the operator.\<close>

definition js_lt :: "int option \<Rightarrow> int \<Rightarrow> bool" where
  "js_lt x k = (case x of None \<Rightarrow> False | Some n \<Rightarrow> n < k)"

definition js_gt :: "int option \<Rightarrow> int \<Rightarrow> bool" where
  "js_gt x k = (case x of None \<Rightarrow> False | Some n \<Rightarrow> n > k)"

fun decimal :: "nat \<Rightarrow> string" where
  "decimal n =
     (if n < 10 then [''0123456789'' ! n]
      else decimal (n div 10) @ [''0123456789'' ! (n mod 10)])"

declare decimal.simps [simp del]

definition number_toString :: "int option \<Rightarrow> string" where
  "number_toString x =
     (case x of
        None \<Rightarrow> ''NaN''
      | Some n \<Rightarrow> (if n < 0 then ''-'' @ decimal (nat (- n)) else decimal (nat n)))"

section \<open>The PDF document model the handlers call\<close>

text \<open>
  The handlers use the document-model library through \<^verbatim>\<open>PDFDocument.create\<close>,
  \<^verbatim>\<open>PDFDocument.load\<close>, \<^verbatim>\<open>getPageIndices\<close>, \<^verbatim>\<open>copyPages\<close>, \<^verbatim>\<open>addPage\<close>, the metadata
  setters and \<^verbatim>\<open>save\<close>. A document is its page sequence and its information
  dictionary. A page is opaque content; \<open>DefaultPage\<close> is the blank page that the
  library's \<^verbatim>\<open>addPage()\<close> makes when it is called with no argument.
\<close>

datatype pdf_page = Page string | DefaultPage

record pdf_info =
  title :: "string option"
  author :: "string option"
  subject :: "string option"
  pdf_keywords :: "string list option"
  creationDate :: "nat option"
  modificationDate :: "nat option"

record pdf_document =
  pages :: "pdf_page list"
  info :: pdf_info

text \<open>The options object of \<^verbatim>\<open>save\<close>; a field left out of the object literal is \<open>None\<close>.\<close>

record save_options =
  useObjectStreams :: "bool option"
  addDefaultPage :: "bool option"
  objectsPerTick :: "nat option"

section \<open>The world outside the handlers\<close>

datatype node = Dir | File bytes

type_synonym fs = "string \<rightharpoonup> node"

text \<open>
  Everything the handlers do not decide themselves: the byte-level reader and writer of
  the PDF library, the metadata a freshly created document carries, the two readings of
  the clock taken by \<^verbatim>\<open>new Date()\<close>, the temp directory of the operating system and the
  suffix \<^verbatim>\<open>mkdtemp\<close> picks, whether \<^verbatim>\<open>writeFile\<close> and \<^verbatim>\<open>rm\<close> fail, and what running a
  shell command does: \<open>run_exec e cmd d\<close> is the rejection (if any) of \<^verbatim>\<open>execAsync(cmd)\<close>
  on the file system \<open>d\<close> and the file system it leaves.
\<close>

record env =
  pdf_parse :: "bytes \<Rightarrow> thrown + pdf_document"
  pdf_write :: "bool \<Rightarrow> nat \<Rightarrow> pdf_document \<Rightarrow> bytes"
  created_info :: pdf_info
  date1 :: nat
  date2 :: nat
  tmpdir :: string
  mkdtemp_suffix :: "thrown + string"
  writeFile_error :: "thrown option"
  run_exec :: "string \<Rightarrow> fs \<Rightarrow> thrown option \<times> fs"
  rm_error :: "thrown option"

subsection \<open>Library calls on documents\<close>

definition PDFDocument_create :: "env \<Rightarrow> pdf_document" where
  "PDFDocument_create e = \<lparr>pages = [], info = created_info e\<rparr>"

definition PDFDocument_load :: "env \<Rightarrow> bytes \<Rightarrow> thrown + pdf_document" where
  "PDFDocument_load e b = pdf_parse e b"

definition getPageIndices :: "pdf_document \<Rightarrow> nat list" where
  "getPageIndices pdf = [0 ..< length (pages pdf)]"

text \<open>
  \<^verbatim>\<open>target.copyPages(src, indices)\<close> returns copies of the named pages of \<open>src\<close>, content
  preserved, without adding them to \<open>target\<close>. The handlers only pass
  \<open>getPageIndices src\<close>, so every index is in range.
\<close>

definition copyPages :: "pdf_document \<Rightarrow> pdf_document \<Rightarrow> nat list \<Rightarrow> pdf_page list" where
  "copyPages target src indices = map (\<lambda>i. pages src ! i) indices"

definition addPage :: "pdf_document \<Rightarrow> pdf_page \<Rightarrow> pdf_document" where
  "addPage doc page = doc\<lparr>pages := pages doc @ [page]\<rparr>"

definition setTitle :: "string \<Rightarrow> pdf_document \<Rightarrow> pdf_document" where
  "setTitle s doc = doc\<lparr>info := (info doc)\<lparr>title := Some s\<rparr>\<rparr>"

definition setAuthor :: "string \<Rightarrow> pdf_document \<Rightarrow> pdf_document" where
  "setAuthor s doc = doc\<lparr>info := (info doc)\<lparr>author := Some s\<rparr>\<rparr>"

definition setSubject :: "string \<Rightarrow> pdf_document \<Rightarrow> pdf_document" where
  "setSubject s doc = doc\<lparr>info := (info doc)\<lparr>subject := Some s\<rparr>\<rparr>"

definition setKeywords :: "string list \<Rightarrow> pdf_document \<Rightarrow> pdf_document" where
  "setKeywords ks doc = doc\<lparr>info := (info doc)\<lparr>pdf_keywords := Some ks\<rparr>\<rparr>"

definition setCreationDate :: "nat \<Rightarrow> pdf_document \<Rightarrow> pdf_document" where
  "setCreationDate d doc = doc\<lparr>info := (info doc)\<lparr>creationDate := Some d\<rparr>\<rparr>"

definition setModificationDate :: "nat \<Rightarrow> pdf_document \<Rightarrow> pdf_document" where
  "setModificationDate d doc = doc\<lparr>info := (info doc)\<lparr>modificationDate := Some d\<rparr>\<rparr>"

text \<open>
  \<^verbatim>\<open>doc.save(options)\<close>. The library's documented defaults for options left out are
  \<^verbatim>\<open>useObjectStreams = true\<close>, \<^verbatim>\<open>addDefaultPage = true\<close> and \<^verbatim>\<open>objectsPerTick = 50\<close>.
  With \<^verbatim>\<open>addDefaultPage\<close> on, a document that has no page gets one blank page added
  before it is written; the page stays in the document object. The result is the
  document after the call and the bytes written.
\<close>

definition save :: "env \<Rightarrow> save_options \<Rightarrow> pdf_document \<Rightarrow> pdf_document \<times> bytes" where
  "save e options doc =
     (let uos = (case useObjectStreams options of None \<Rightarrow> True | Some b \<Rightarrow> b);
          adp = (case addDefaultPage options of None \<Rightarrow> True | Some b \<Rightarrow> b);
          opt = (case objectsPerTick options of None \<Rightarrow> 50 | Some n \<Rightarrow> n);
          doc' = (if adp \<and> pages doc = [] then addPage doc DefaultPage else doc)
      in (doc', pdf_write e uos opt doc'))"

definition no_options :: save_options where
  "no_options = \<lparr>useObjectStreams = None, addDefaultPage = None, objectsPerTick = None\<rparr>"

section \<open>Requests and responses\<close>

text \<open>
  \<^verbatim>\<open>req.formData()\<close> either rejects or yields the form: the \<^verbatim>\<open>files\<close> parts in order, each
  by its content, and the \<^verbatim>\<open>compressionLevel\<close> field (\<open>None\<close> when absent).
\<close>

record form_data =
  files :: "bytes list"
  compressionLevel :: "string option"

type_synonym request = "thrown + form_data"

datatype payload = Json string "string option" | Binary bytes

record response =
  status :: nat
  headers :: "(string \<times> string) list"
  payload :: payload

definition json_response :: "nat \<Rightarrow> string \<Rightarrow> string option \<Rightarrow> response" where
  "json_response st err details =
     \<lparr>status = st, headers = [(''content-type'', ''application/json'')],
      payload = Json err details\<rparr>"

text \<open>\<^verbatim>\<open>formData.get("compressionLevel") as string || "0"\<close>: absent and empty both give "0".\<close>

definition level_text :: "form_data \<Rightarrow> string" where
  "level_text formData =
     (case compressionLevel formData of
        None \<Rightarrow> ''0''
      | Some s \<Rightarrow> (if s = [] then ''0'' else s))"

section \<open>The merge loop, shared by both handlers\<close>

fun merge_loop :: "env \<Rightarrow> pdf_document \<Rightarrow> bytes list \<Rightarrow> thrown + pdf_document" where
  "merge_loop e mergedPdf [] = Inr mergedPdf"
| "merge_loop e mergedPdf (file # rest) =
     (case PDFDocument_load e file of
        Inl err \<Rightarrow> Inl err
      | Inr pdf \<Rightarrow>
          merge_loop e
            (foldl addPage mergedPdf (copyPages mergedPdf pdf (getPageIndices pdf))) rest)"

section \<open>The handler of \<^verbatim>\<open>src/app/api/merge/route.ts\<close>\<close>

definition medium_options :: save_options where
  "medium_options =
     \<lparr>useObjectStreams = Some True, addDefaultPage = Some False, objectsPerTick = Some 50\<rparr>"

definition high_options :: save_options where
  "high_options =
     \<lparr>useObjectStreams = Some True, addDefaultPage = Some False, objectsPerTick = Some 20\<rparr>"

definition resave_options :: save_options where
  "resave_options =
     \<lparr>useObjectStreams = Some True, addDefaultPage = None, objectsPerTick = Some 10\<rparr>"

definition set_metadata :: "env \<Rightarrow> pdf_document \<Rightarrow> pdf_document" where
  "set_metadata e optimizedPdf =
     setModificationDate (date2 e)
       (setCreationDate (date1 e)
         (setKeywords [''merged'', ''pdf'']
           (setSubject ''Merged Documents''
             (setAuthor ''PDF Merger''
               (setTitle ''Merged PDF'' optimizedPdf)))))"

text \<open>The three-way branch on the level; \<^verbatim>\<open>NaN\<close> is neither 0 nor 1 and takes the last one.\<close>

definition route_compress :: "env \<Rightarrow> int option \<Rightarrow> pdf_document \<Rightarrow> thrown + bytes" where
  "route_compress e level mergedPdf =
     (if level = Some 0 then Inr (snd (save e no_options mergedPdf))
      else if level = Some 1 then Inr (snd (save e medium_options mergedPdf))
      else
        (let mergedBytes = snd (save e high_options mergedPdf)
         in case PDFDocument_load e mergedBytes of
              Inl err \<Rightarrow> Inl err
            | Inr optimizedPdf \<Rightarrow>
                Inr (snd (save e resave_options (set_metadata e optimizedPdf)))))"

definition route_success :: "int option \<Rightarrow> bytes \<Rightarrow> response" where
  "route_success level nodeBuffer =
     \<lparr>status = 200,
      headers =
        [(''Content-Type'', ''application/pdf''),
         (''Content-Disposition'',
            ''attachment; filename='' @ [CHR 0x22] @ ''merged''
              @ (if js_gt level 0 then ''_compressed'' else '''') @ ''.pdf'' @ [CHR 0x22]),
         (''Content-Length'', decimal (length nodeBuffer)),
         (''X-Compression-Level'', number_toString level)],
      payload = Binary nodeBuffer\<rparr>"

definition route_try :: "env \<Rightarrow> request \<Rightarrow> thrown + response" where
  "route_try e req =
     (case req of
        Inl err \<Rightarrow> Inl err
      | Inr formData \<Rightarrow>
          (let level = parseInt (level_text formData)
           in if files formData = []
              then Inr (json_response 400 ''No PDF files uploaded.'' None)
              else if js_lt level 0 \<or> js_gt level 2
              then Inr (json_response 400 ''Invalid compression level.'' None)
              else
                (case merge_loop e (PDFDocument_create e) (files formData) of
                   Inl err \<Rightarrow> Inl err
                 | Inr mergedPdf \<Rightarrow>
                     (case route_compress e level mergedPdf of
                        Inl err \<Rightarrow> Inl err
                      | Inr mergedBytes \<Rightarrow> Inr (route_success level mergedBytes)))))"

definition POST_route :: "env \<Rightarrow> request \<Rightarrow> response" where
  "POST_route e req =
     (case route_try e req of
        Inr resp \<Rightarrow> resp
      | Inl err \<Rightarrow> json_response 500 ''Failed to merge PDFs'' (Some (error_details err)))"

section \<open>The handler of \<^verbatim>\<open>part_001\<close>, with the external compressor\<close>

subsection \<open>File system, child processes and the record of external calls\<close>

text \<open>
  The state threaded through the handler: the file system and, as a spy on the
  collaborators, the calls made so far in order (\<open>Save\<close> for the library's \<^verbatim>\<open>save\<close>,
  \<open>MadeTempDir\<close> for a directory \<^verbatim>\<open>mkdtemp\<close> created, and the calls of \<^verbatim>\<open>writeFile\<close>,
  \<^verbatim>\<open>execAsync\<close>, \<^verbatim>\<open>readFile\<close> and \<^verbatim>\<open>rm\<close> with their argument).
\<close>

datatype event =
    Save save_options
  | MadeTempDir string
  | WriteFile string
  | Exec string
  | ReadFile string
  | Rm string

record world =
  disk :: fs
  calls :: "event list"

definition record_call :: "event \<Rightarrow> world \<Rightarrow> world" where
  "record_call ev w = w\<lparr>calls := calls w @ [ev]\<rparr>"

text \<open>\<^verbatim>\<open>path.join(a, b)\<close> on a normalised \<open>a\<close> with no trailing separator.\<close>

definition path_join :: "string \<Rightarrow> string \<Rightarrow> string" where
  "path_join a b = a @ ''/'' @ b"

text \<open>\<^verbatim>\<open>fs.mkdtemp(prefix)\<close> creates the directory named by the prefix followed by a suffix of its choice.\<close>

definition fs_mkdtemp :: "env \<Rightarrow> string \<Rightarrow> world \<Rightarrow> (thrown + string) \<times> world" where
  "fs_mkdtemp e pre w =
     (case mkdtemp_suffix e of
        Inl err \<Rightarrow> (Inl err, w)
      | Inr suf \<Rightarrow>
          (Inr (pre @ suf),
           record_call (MadeTempDir (pre @ suf))
             (w\<lparr>disk := (disk w)(pre @ suf \<mapsto> Dir)\<rparr>)))"

definition fs_writeFile :: "env \<Rightarrow> string \<Rightarrow> bytes \<Rightarrow> world \<Rightarrow> (thrown + unit) \<times> world" where
  "fs_writeFile e p content w =
     (case writeFile_error e of
        Some err \<Rightarrow> (Inl err, record_call (WriteFile p) w)
      | None \<Rightarrow> (Inr (), record_call (WriteFile p) (w\<lparr>disk := (disk w)(p \<mapsto> File content)\<rparr>)))"

definition fs_readFile :: "string \<Rightarrow> world \<Rightarrow> (thrown + bytes) \<times> world" where
  "fs_readFile p w =
     (case disk w p of
        Some (File content) \<Rightarrow> (Inr content, record_call (ReadFile p) w)
      | Some Dir \<Rightarrow>
          (Inl (Error ''EISDIR: illegal operation on a directory, read''),
           record_call (ReadFile p) w)
      | None \<Rightarrow>
          (Inl (Error (''ENOENT: no such file or directory, open '' @ [CHR 0x27] @ p @ [CHR 0x27])),
           record_call (ReadFile p) w))"

text \<open>\<^verbatim>\<open>fs.rm(dir, { recursive: true, force: true })\<close>: the path and everything below it.\<close>

definition remove_tree :: "string \<Rightarrow> fs \<Rightarrow> fs" where
  "remove_tree dir d = (\<lambda>p. if p = dir \<or> prefix (dir @ ''/'') p then None else d p)"

definition fs_rm :: "env \<Rightarrow> string \<Rightarrow> world \<Rightarrow> (thrown + unit) \<times> world" where
  "fs_rm e dir w =
     (case rm_error e of
        Some err \<Rightarrow> (Inl err, record_call (Rm dir) w)
      | None \<Rightarrow> (Inr (), record_call (Rm dir) (w\<lparr>disk := remove_tree dir (disk w)\<rparr>)))"

definition execAsync :: "env \<Rightarrow> string \<Rightarrow> world \<Rightarrow> (thrown + unit) \<times> world" where
  "execAsync e cmd w =
     (case run_exec e cmd (disk w) of
        (Some err, d) \<Rightarrow> (Inl err, record_call (Exec cmd) (w\<lparr>disk := d\<rparr>))
      | (None, d) \<Rightarrow> (Inr (), record_call (Exec cmd) (w\<lparr>disk := d\<rparr>)))"

definition isGhostscriptAvailable :: "env \<Rightarrow> world \<Rightarrow> bool \<times> world" where
  "isGhostscriptAvailable e w =
     (case execAsync e ''gs --version'' w of
        (Inl err, w') \<Rightarrow> (False, w')
      | (Inr u, w') \<Rightarrow> (True, w'))"

subsection \<open>The handler\<close>

definition plain_headers :: "string \<Rightarrow> bytes \<Rightarrow> (string \<times> string) list" where
  "plain_headers filename content =
     [(''Content-Type'', ''application/pdf''),
      (''Content-Disposition'', ''attachment; filename='' @ [CHR 0x22] @ filename @ [CHR 0x22]),
      (''Content-Length'', decimal (length content))]"

definition fallback_options :: "int option \<Rightarrow> save_options" where
  "fallback_options level =
     (if level = Some 1
      then \<lparr>useObjectStreams = Some True, addDefaultPage = None, objectsPerTick = Some 50\<rparr>
      else \<lparr>useObjectStreams = Some True, addDefaultPage = None, objectsPerTick = Some 20\<rparr>)"

text \<open>
  The template literals of the two commands; a backslash before a line break continues
  the line, so each continuation contributes the ten spaces that indent the next line.
\<close>

definition gs_tail :: "string \<Rightarrow> string \<Rightarrow> string" where
  "gs_tail tempOutputPath tempInputPath =
     ''-dNOPAUSE -dQUIET -dBATCH           -sOutputFile='' @ [CHR 0x22] @ tempOutputPath
       @ [CHR 0x22] @ '' '' @ [CHR 0x22] @ tempInputPath @ [CHR 0x22]"

definition gsCommand :: "int option \<Rightarrow> string \<Rightarrow> string \<Rightarrow> string" where
  "gsCommand level tempOutputPath tempInputPath =
     (if level = Some 1 then
        ''gs -sDEVICE=pdfwrite -dCompatibilityLevel=1.4           -dPDFSETTINGS=/ebook           ''
          @ gs_tail tempOutputPath tempInputPath
      else if level = Some 2 then
        ''gs -sDEVICE=pdfwrite -dCompatibilityLevel=1.4           -dPDFSETTINGS=/screen           ''
          @ ''-dEmbedAllFonts=true -dSubsetFonts=true -dConvertCMYKImagesToRGB=true           ''
          @ ''-dColorImageDownsampleType=/Bicubic -dColorImageResolution=150           ''
          @ ''-dGrayImageDownsampleType=/Bicubic -dGrayImageResolution=150           ''
          @ ''-dMonoImageDownsampleType=/Bicubic -dMonoImageResolution=150           ''
          @ gs_tail tempOutputPath tempInputPath
      else [])"

text \<open>From the probe on: the fallback when the probe fails, the external run otherwise.\<close>

definition after_probe ::
  "env \<Rightarrow> int option \<Rightarrow> pdf_document \<Rightarrow> string \<Rightarrow> string \<Rightarrow> world \<Rightarrow> (thrown + response) \<times> world"
where
  "after_probe e level mergedPdf tempInputPath tempOutputPath w =
     (case isGhostscriptAvailable e w of
        (False, w1) \<Rightarrow>
          (let saveOptions = fallback_options level;
               compressedBytes = snd (save e saveOptions mergedPdf)
           in (Inr \<lparr>status = 200,
                    headers = plain_headers ''merged_compressed.pdf'' compressedBytes,
                    payload = Binary compressedBytes\<rparr>,
               record_call (Save saveOptions) w1))
      | (True, w1) \<Rightarrow>
          (case execAsync e (gsCommand level tempOutputPath tempInputPath) w1 of
             (Inl err, w2) \<Rightarrow> (Inl err, w2)
           | (Inr u, w2) \<Rightarrow>
               (case fs_readFile tempOutputPath w2 of
                  (Inl err, w3) \<Rightarrow> (Inl err, w3)
                | (Inr compressedBuffer, w3) \<Rightarrow>
                    (Inr \<lparr>status = 200,
                          headers =
                            plain_headers ''merged_compressed.pdf'' compressedBuffer
                              @ [(''X-Compression-Method'', ''ghostscript''),
                                 (''X-Compression-Level'', number_toString level)],
                          payload = Binary compressedBuffer\<rparr>,
                     w3))))"

text \<open>
  The \<^verbatim>\<open>try\<close> block: its outcome, the value of the variable \<^verbatim>\<open>tempDir\<close> when the block
  is left, and the world.
\<close>

definition compress_external ::
  "env \<Rightarrow> int option \<Rightarrow> pdf_document \<Rightarrow> bytes \<Rightarrow> world
     \<Rightarrow> (thrown + response) \<times> string option \<times> world"
where
  "compress_external e level mergedPdf mergedBytes w =
     (case fs_mkdtemp e (path_join (tmpdir e) ''pdf-compress-'') w of
        (Inl err, w1) \<Rightarrow> (Inl err, None, w1)
      | (Inr tempDir, w1) \<Rightarrow>
          (let tempInputPath = path_join tempDir ''input.pdf'';
               tempOutputPath = path_join tempDir ''output.pdf''
           in case fs_writeFile e tempInputPath mergedBytes w1 of
                (Inl err, w2) \<Rightarrow> (Inl err, Some tempDir, w2)
              | (Inr u, w2) \<Rightarrow>
                  (case after_probe e level mergedPdf tempInputPath tempOutputPath w2 of
                     (r, w3) \<Rightarrow> (r, Some tempDir, w3))))"

definition part_001_try ::
  "env \<Rightarrow> request \<Rightarrow> world \<Rightarrow> (thrown + response) \<times> string option \<times> world"
where
  "part_001_try e req w =
     (case req of
        Inl err \<Rightarrow> (Inl err, None, w)
      | Inr formData \<Rightarrow>
          (let level = parseInt (level_text formData)
           in if files formData = []
              then (Inr (json_response 400 ''No PDF files uploaded.'' None), None, w)
              else if js_lt level 0 \<or> js_gt level 2
              then (Inr (json_response 400 ''Invalid compression level.'' None), None, w)
              else
                (case merge_loop e (PDFDocument_create e) (files formData) of
                   Inl err \<Rightarrow> (Inl err, None, w)
                 | Inr merged \<Rightarrow>
                     (case save e no_options merged of
                        (mergedPdf, mergedBytes) \<Rightarrow>
                          (let w1 = record_call (Save no_options) w
                           in if level = Some 0
                              then (Inr \<lparr>status = 200,
                                         headers = plain_headers ''merged.pdf'' mergedBytes,
                                         payload = Binary mergedBytes\<rparr>,
                                    None, w1)
                              else compress_external e level mergedPdf mergedBytes w1)))))"

text \<open>The \<^verbatim>\<open>finally\<close> block: a rejection of \<^verbatim>\<open>rm\<close> is caught and only logged.\<close>

definition cleanup :: "env \<Rightarrow> string option \<Rightarrow> world \<Rightarrow> world" where
  "cleanup e tempDir w =
     (case tempDir of
        None \<Rightarrow> w
      | Some dir \<Rightarrow> snd (fs_rm e dir w))"

definition POST_part_001 :: "env \<Rightarrow> request \<Rightarrow> world \<Rightarrow> response \<times> world" where
  "POST_part_001 e req w =
     (case part_001_try e req w of
        (r, tempDir, w1) \<Rightarrow>
          ((case r of
              Inr resp \<Rightarrow> resp
            | Inl err \<Rightarrow>
                json_response 500 ''Failed to process PDFs'' (Some (error_details err))),
           cleanup e tempDir w1))"

section \<open>A small concrete world\<close>

text \<open>
  A toy PDF codec for evaluating the handlers on concrete requests: a file is the
  header \<^verbatim>\<open>%PDF\<close>, the title up to a bar, then one character per page (\<^verbatim>\<open>_\<close> for the
  blank default page). Reading sets no metadata except the title. The toy shell has no
  \<^verbatim>\<open>gs\<close>: every command is rejected and leaves the file system alone.
\<close>

definition toy_page_char :: "pdf_page \<Rightarrow> char" where
  "toy_page_char p = (case p of Page c \<Rightarrow> (case c of [] \<Rightarrow> CHR ''?'' | x # xs \<Rightarrow> x) | DefaultPage \<Rightarrow> CHR ''_'')"

definition toy_char_page :: "char \<Rightarrow> pdf_page" where
  "toy_char_page c = (if c = CHR ''_'' then DefaultPage else Page [c])"

definition toy_write :: "bool \<Rightarrow> nat \<Rightarrow> pdf_document \<Rightarrow> bytes" where
  "toy_write uos opt doc =
     ''%PDF'' @ (case title (info doc) of None \<Rightarrow> [] | Some t \<Rightarrow> t) @ ''|''
       @ map toy_page_char (pages doc)"

definition no_info :: pdf_info where
  "no_info =
     \<lparr>title = None, author = None, subject = None, pdf_keywords = None,
      creationDate = None, modificationDate = None\<rparr>"

definition toy_parse :: "bytes \<Rightarrow> thrown + pdf_document" where
  "toy_parse b =
     (if take 4 b = ''%PDF'' \<and> CHR ''|'' \<in> set b then
        (let t = takeWhile (\<lambda>c. c \<noteq> CHR ''|'') (drop 4 b);
             ps = drop 1 (dropWhile (\<lambda>c. c \<noteq> CHR ''|'') (drop 4 b))
         in Inr \<lparr>pages = map toy_char_page ps,
                 info = no_info\<lparr>title := (if t = [] then None else Some t)\<rparr>\<rparr>)
      else Inl (Error ''No PDF header found''))"

definition toy_env :: env where
  "toy_env =
     \<lparr>pdf_parse = toy_parse, pdf_write = toy_write, created_info = no_info,
      date1 = 1000, date2 = 1001, tmpdir = ''/tmp'', mkdtemp_suffix = Inr ''AbC123'',
      writeFile_error = None,
      run_exec = (\<lambda>cmd d. (Some (Error ''Command failed''), d)),
      rm_error = None\<rparr>"

definition empty_world :: world where
  "empty_world = \<lparr>disk = Map.empty, calls = []\<rparr>"

definition toy_env_gs_fails :: env where
  "toy_env_gs_fails =
     toy_env\<lparr>run_exec :=
       (\<lambda>cmd d. if cmd = ''gs --version'' then (None, d)
                else (Some (Error ''Command failed''), d))\<rparr>"

definition toy_env_rm_fails :: env where
  "toy_env_rm_fails = toy_env\<lparr>rm_error := Some (Error ''EBUSY: resource busy or locked'')\<rparr>"

definition toy_env_gs_works :: env where
  "toy_env_gs_works =
     toy_env\<lparr>run_exec :=
       (\<lambda>cmd d. if cmd = ''gs --version'' then (None, d)
                else (None, d(''/tmp/pdf-compress-AbC123/output.pdf'' \<mapsto> File ''%PDFgs|ab'')))\<rparr>"

section \<open>What the properties speak about\<close>

text \<open>The page sequence of an input file, as the library reads it.\<close>

definition input_pages :: "env \<Rightarrow> bytes \<Rightarrow> pdf_page list" where
  "input_pages e file = (case PDFDocument_load e file of Inl err \<Rightarrow> [] | Inr pdf \<Rightarrow> pages pdf)"

text \<open>The external calls made between two states of the world.\<close>

definition new_calls :: "world \<Rightarrow> world \<Rightarrow> event list" where
  "new_calls w w' = drop (length (calls w)) (calls w')"

section \<open>The merge loop\<close>

lemma pages_foldl_addPage: "pages (foldl addPage doc ps) = pages doc @ ps"
  by (induction ps arbitrary: doc) (simp_all add: addPage_def)

lemma info_foldl_addPage: "info (foldl addPage doc ps) = info doc"
  by (induction ps arbitrary: doc) (simp_all add: addPage_def)

lemma copyPages_all: "copyPages target src (getPageIndices src) = pages src"
  by (simp add: copyPages_def getPageIndices_def map_nth)

lemma merge_loop_result:
  "merge_loop e acc fs = Inr m \<Longrightarrow>
     pages m = pages acc @ concat (map (input_pages e) fs) \<and> info m = info acc"
proof (induction fs arbitrary: acc)
  case Nil
  then show ?case by simp
next
  case (Cons f fs)
  then show ?case
    by (auto simp: input_pages_def copyPages_all pages_foldl_addPage info_foldl_addPage
             split: sum.splits)
qed

lemma merge_loop_succeeds:
  "\<forall>f \<in> set fs. \<not> isl (PDFDocument_load e f) \<Longrightarrow> \<exists>m. merge_loop e acc fs = Inr m"
proof (induction fs arbitrary: acc)
  case Nil
  then show ?case by simp
next
  case (Cons f fs)
  then obtain pdf where "PDFDocument_load e f = Inr pdf"
    by (cases "PDFDocument_load e f") auto
  with Cons show ?case by simp
qed

lemma merge_loop_fails:
  "\<exists>f \<in> set fs. isl (PDFDocument_load e f) \<Longrightarrow> \<exists>err. merge_loop e acc fs = Inl err"
proof (induction fs arbitrary: acc)
  case Nil
  then show ?case by simp
next
  case (Cons f fs)
  show ?case
  proof (cases "PDFDocument_load e f")
    case (Inl err)
    then show ?thesis by simp
  next
    case (Inr pdf)
    with Cons.prems have "\<exists>g \<in> set fs. isl (PDFDocument_load e g)" by auto
    from Cons.IH [OF this] Inr show ?thesis by simp
  qed
qed

lemmas toy_simps =
  toy_env_def toy_parse_def toy_write_def toy_char_page_def toy_page_char_def no_info_def
  PDFDocument_load_def PDFDocument_create_def input_pages_def copyPages_def
  getPageIndices_def addPage_def

text \<open>
  When every input file parses, the document the merge loop builds has as its page
  sequence the concatenation of the inputs' page sequences, in the order of the files
  and with each file's own page order; its page count is the sum of the inputs' page
  counts.
\<close>

theorem merge_concatenates_inputs:
  assumes "fs \<noteq> []" and "\<forall>f \<in> set fs. \<not> isl (PDFDocument_load e f)"
  shows "\<exists>mergedPdf. merge_loop e (PDFDocument_create e) fs = Inr mergedPdf
           \<and> pages mergedPdf = concat (map (input_pages e) fs)
           \<and> length (pages mergedPdf) = sum_list (map (\<lambda>f. length (input_pages e f)) fs)"
proof -
  from merge_loop_succeeds [OF assms(2)]
  obtain m where m: "merge_loop e (PDFDocument_create e) fs = Inr m" by blast
  from merge_loop_result [OF m] have "pages m = concat (map (input_pages e) fs)"
    by (simp add: PDFDocument_create_def)
  then show ?thesis using m by (simp add: length_concat comp_def)
qed

theorem merge_concatenates_inputs_witness:
  "\<exists>mergedPdf.
      merge_loop toy_env (PDFDocument_create toy_env) [''%PDF|abc'', ''%PDF|de''] = Inr mergedPdf
      \<and> pages mergedPdf = [Page ''a'', Page ''b'', Page ''c'', Page ''d'', Page ''e'']
      \<and> length (pages mergedPdf) = 5"
  using merge_concatenates_inputs [of "[''%PDF|abc'', ''%PDF|de'']" toy_env]
  by (simp add: toy_simps)

lemmas parse_simps =
  parseInt_def level_text_def is_js_space_def radix_digit_def digit_value_def numeral_value_def
  js_lt_def js_gt_def number_toString_def

lemmas handler_simps =
  POST_route_def route_try_def route_compress_def route_success_def set_metadata_def
  setTitle_def setAuthor_def setSubject_def setKeywords_def setCreationDate_def
  setModificationDate_def save_def no_options_def medium_options_def high_options_def
  resave_options_def json_response_def error_details_def
  POST_part_001_def part_001_try_def compress_external_def after_probe_def cleanup_def
  isGhostscriptAvailable_def execAsync_def fs_mkdtemp_def fs_writeFile_def fs_readFile_def
  fs_rm_def remove_tree_def record_call_def path_join_def plain_headers_def
  fallback_options_def gsCommand_def gs_tail_def empty_world_def new_calls_def
  toy_env_gs_fails_def toy_env_rm_fails_def toy_env_gs_works_def Let_def

section \<open>Both handlers after the merge loop\<close>

lemma route_after_merge:
  assumes "files formData \<noteq> []"
    and "\<not> js_lt (parseInt (level_text formData)) 0" and "\<not> js_gt (parseInt (level_text formData)) 2"
    and "merge_loop e (PDFDocument_create e) (files formData) = Inr mergedPdf"
  shows "POST_route e (Inr formData) =
     (case route_compress e (parseInt (level_text formData)) mergedPdf of
        Inl err \<Rightarrow> json_response 500 ''Failed to merge PDFs'' (Some (error_details err))
      | Inr mergedBytes \<Rightarrow> route_success (parseInt (level_text formData)) mergedBytes)"
  using assms by (simp add: POST_route_def route_try_def Let_def split: sum.splits)

lemma part_001_after_merge:
  assumes "files formData \<noteq> []"
    and "\<not> js_lt (parseInt (level_text formData)) 0" and "\<not> js_gt (parseInt (level_text formData)) 2"
    and "merge_loop e (PDFDocument_create e) (files formData) = Inr merged"
  shows "part_001_try e (Inr formData) w =
     (if parseInt (level_text formData) = Some 0
      then (Inr \<lparr>status = 200,
                 headers = plain_headers ''merged.pdf'' (snd (save e no_options merged)),
                 payload = Binary (snd (save e no_options merged))\<rparr>,
            None, record_call (Save no_options) w)
      else compress_external e (parseInt (level_text formData)) (fst (save e no_options merged))
             (snd (save e no_options merged)) (record_call (Save no_options) w))"
  using assms by (simp add: part_001_try_def Let_def split: prod.splits)

lemma route_merge_fails:
  assumes "files formData \<noteq> []"
    and "\<not> js_lt (parseInt (level_text formData)) 0" and "\<not> js_gt (parseInt (level_text formData)) 2"
    and "merge_loop e (PDFDocument_create e) (files formData) = Inl err"
  shows "POST_route e (Inr formData) =
           json_response 500 ''Failed to merge PDFs'' (Some (error_details err))"
  using assms by (simp add: POST_route_def route_try_def Let_def)

lemma part_001_merge_fails:
  assumes "files formData \<noteq> []"
    and "\<not> js_lt (parseInt (level_text formData)) 0" and "\<not> js_gt (parseInt (level_text formData)) 2"
    and "merge_loop e (PDFDocument_create e) (files formData) = Inl err"
  shows "POST_part_001 e (Inr formData) w =
           (json_response 500 ''Failed to process PDFs'' (Some (error_details err)), w)"
  using assms by (simp add: POST_part_001_def part_001_try_def Let_def cleanup_def)

lemma level12_valid:
  "level = Some 1 \<or> level = Some 2 \<Longrightarrow> \<not> js_lt level 0 \<and> \<not> js_gt level 2 \<and> level \<noteq> Some 0"
  by (auto simp: js_lt_def js_gt_def)

lemma compress_external_reaches_probe:
  assumes "mkdtemp_suffix e = Inr suf" and "writeFile_error e = None"
    and "dir = path_join (tmpdir e) ''pdf-compress-'' @ suf"
    and "inp = path_join dir ''input.pdf''" and "outp = path_join dir ''output.pdf''"
  shows "compress_external e level mergedPdf mergedBytes w =
     (case after_probe e level mergedPdf inp outp
             (w\<lparr>disk := (disk w)(dir \<mapsto> Dir, inp \<mapsto> File mergedBytes),
                calls := calls w @ [MadeTempDir dir, WriteFile inp]\<rparr>) of
        (r, w3) \<Rightarrow> (r, Some dir, w3))"
  using assms
  by (simp add: compress_external_def fs_mkdtemp_def fs_writeFile_def Let_def record_call_def)


lemma after_probe_external_fails:
  assumes "run_exec e ''gs --version'' (disk w) = (None, d1)"
    and "run_exec e (gsCommand level outp inp) d1 = (r, d2)"
    and "r \<noteq> None \<or> (\<forall>content. d2 outp \<noteq> Some (File content))"
  shows "\<exists>err. after_probe e level mergedPdf inp outp w =
     (Inl err,
      \<lparr>disk = d2,
       calls = calls w @ [Exec ''gs --version'', Exec (gsCommand level outp inp)]
                 @ (if r = None then [ReadFile outp] else [])\<rparr>)"
proof (cases r)
  case None
  with assms(3) have nofile: "\<forall>content. d2 outp \<noteq> Some (File content)" by simp
  show ?thesis
  proof (cases "d2 outp")
    case None': None
    with None assms(1,2) show ?thesis
      by (simp add: after_probe_def isGhostscriptAvailable_def execAsync_def record_call_def
            fs_readFile_def)
  next
    case (Some n)
    with nofile have "n = Dir" by (cases n) auto
    with Some None assms(1,2) show ?thesis
      by (simp add: after_probe_def isGhostscriptAvailable_def execAsync_def record_call_def
            fs_readFile_def)
  qed
next
  case (Some err)
  with assms(1,2) show ?thesis
    by (simp add: after_probe_def isGhostscriptAvailable_def execAsync_def record_call_def)
qed

lemma merge_loop_ignores_rm: "merge_loop (e\<lparr>rm_error := x\<rparr>) acc fs = merge_loop e acc fs"
  by (induction fs arbitrary: acc) (simp_all add: PDFDocument_load_def split: sum.splits)

lemma save_ignores_rm: "save (e\<lparr>rm_error := x\<rparr>) options doc = save e options doc"
  by (simp add: save_def)

lemma execAsync_ignores_rm: "execAsync (e\<lparr>rm_error := x\<rparr>) cmd w = execAsync e cmd w"
  by (simp add: execAsync_def)

lemma after_probe_ignores_rm:
  "after_probe (e\<lparr>rm_error := x\<rparr>) level m inp outp w = after_probe e level m inp outp w"
  by (simp add: after_probe_def isGhostscriptAvailable_def execAsync_ignores_rm save_ignores_rm
      cong: prod.case_cong sum.case_cong bool.case_cong)

lemma compress_external_ignores_rm:
  "compress_external (e\<lparr>rm_error := x\<rparr>) level m b w = compress_external e level m b w"
  by (simp add: compress_external_def fs_mkdtemp_def fs_writeFile_def after_probe_ignores_rm
      cong: prod.case_cong sum.case_cong)

lemma try_ignores_rm: "part_001_try (e\<lparr>rm_error := x\<rparr>) req w = part_001_try e req w"
  by (simp add: part_001_try_def merge_loop_ignores_rm save_ignores_rm
        compress_external_ignores_rm PDFDocument_create_def
      cong: prod.case_cong sum.case_cong if_cong)

lemma after_probe_calls:
  "after_probe e level m inp outp w = (r, w1) \<Longrightarrow>
     \<exists>cs. calls w1 = calls w @ cs \<and> (\<forall>d. MadeTempDir d \<notin> set cs)"
  by (auto simp: after_probe_def isGhostscriptAvailable_def execAsync_def fs_readFile_def
        record_call_def Let_def
      split: prod.splits sum.splits option.splits bool.splits node.splits if_splits)

lemma compress_external_calls:
  assumes "compress_external e level m b w = (r, t, w1)"
  shows "\<exists>cs. calls w1 = calls w @ cs \<and> (\<forall>d. MadeTempDir d \<in> set cs \<longleftrightarrow> t = Some d)"
proof (cases "mkdtemp_suffix e")
  case (Inl err)
  with assms show ?thesis by (auto simp: compress_external_def fs_mkdtemp_def)
next
  case (Inr suf)
  let ?dir = "path_join (tmpdir e) ''pdf-compress-'' @ suf"
  show ?thesis
  proof (cases "writeFile_error e")
    case (Some err)
    with Inr assms show ?thesis
      by (auto simp: compress_external_def fs_mkdtemp_def fs_writeFile_def record_call_def Let_def)
  next
    case None
    obtain r' w' where ap: "after_probe e level m (path_join ?dir ''input.pdf'') (path_join ?dir ''output.pdf'')
             (w\<lparr>disk := (disk w)(?dir \<mapsto> Dir, path_join ?dir ''input.pdf'' \<mapsto> File b),
                calls := calls w @ [MadeTempDir ?dir, WriteFile (path_join ?dir ''input.pdf'')]\<rparr>) = (r', w')"
      by force
    from after_probe_calls [OF ap] obtain cs where
      cs: "calls w' = calls w @ [MadeTempDir ?dir, WriteFile (path_join ?dir ''input.pdf'')] @ cs"
        "\<forall>d. MadeTempDir d \<notin> set cs"
      by auto
    from assms compress_external_reaches_probe [OF Inr None refl refl refl, of level m b w] ap
    have "t = Some ?dir" "w1 = w'" by auto
    with cs show ?thesis by auto
  qed
qed

lemma try_calls:
  assumes "part_001_try e req w = (r, t, w1)"
  shows "\<exists>cs. calls w1 = calls w @ cs \<and> (\<forall>d. MadeTempDir d \<in> set cs \<longleftrightarrow> t = Some d)"
proof -
  consider (early) "t = None" "calls w1 = calls w \<or> calls w1 = calls w @ [Save no_options]"
    | (ext) level m b where
        "compress_external e level m b (record_call (Save no_options) w) = (r, t, w1)"
    using assms
    by (auto simp: part_001_try_def Let_def record_call_def split: sum.splits if_splits prod.splits)
  then show ?thesis
  proof cases
    case early
    then show ?thesis by auto
  next
    case ext
    from compress_external_calls [OF ext] show ?thesis
      by (auto simp: record_call_def)
  qed
qed





lemma pages_set_metadata: "pages (set_metadata e doc) = pages doc"
  by (simp add: set_metadata_def setTitle_def setAuthor_def setSubject_def setKeywords_def
        setCreationDate_def setModificationDate_def)

lemma merged_document_is_written:
  assumes "files formData \<noteq> []"
    and "merge_loop e (PDFDocument_create e) (files formData) = Inr mergedPdf"
  shows "parseInt (level_text formData) = Some 1 \<Longrightarrow>
           POST_route e (Inr formData) = route_success (Some 1) (pdf_write e True 50 mergedPdf)"
    and "parseInt (level_text formData) = Some 0 \<Longrightarrow> pages mergedPdf \<noteq> [] \<Longrightarrow>
           POST_route e (Inr formData) = route_success (Some 0) (pdf_write e True 50 mergedPdf)"
    and "parseInt (level_text formData) = Some 0 \<Longrightarrow> pages mergedPdf \<noteq> [] \<Longrightarrow>
           payload (fst (POST_part_001 e (Inr formData) w)) = Binary (pdf_write e True 50 mergedPdf)"
proof -
  show "POST_route e (Inr formData) = route_success (Some 1) (pdf_write e True 50 mergedPdf)"
    if l: "parseInt (level_text formData) = Some 1"
  proof -
    from l have v: "\<not> js_lt (parseInt (level_text formData)) 0"
      "\<not> js_gt (parseInt (level_text formData)) 2"
      by (simp_all add: js_lt_def js_gt_def)
    from route_after_merge [OF assms(1) v assms(2)] l show ?thesis
      by (simp add: route_compress_def save_def medium_options_def)
  qed
  show "POST_route e (Inr formData) = route_success (Some 0) (pdf_write e True 50 mergedPdf)"
    if l: "parseInt (level_text formData) = Some 0" and ne: "pages mergedPdf \<noteq> []"
  proof -
    from l have v: "\<not> js_lt (parseInt (level_text formData)) 0"
      "\<not> js_gt (parseInt (level_text formData)) 2"
      by (simp_all add: js_lt_def js_gt_def)
    from route_after_merge [OF assms(1) v assms(2)] l ne show ?thesis
      by (simp add: route_compress_def save_def no_options_def)
  qed
  show "payload (fst (POST_part_001 e (Inr formData) w)) = Binary (pdf_write e True 50 mergedPdf)"
    if l: "parseInt (level_text formData) = Some 0" and ne: "pages mergedPdf \<noteq> []"
  proof -
    from l have v: "\<not> js_lt (parseInt (level_text formData)) 0"
      "\<not> js_gt (parseInt (level_text formData)) 2"
      by (simp_all add: js_lt_def js_gt_def)
    from part_001_after_merge [OF assms(1) v assms(2), of w] l ne show ?thesis
      by (simp add: POST_part_001_def save_def no_options_def)
  qed
qed

lemma nan_passes_validation:
  assumes "parseInt (level_text formData) = None" and "files formData \<noteq> []"
    and "merge_loop e (PDFDocument_create e) (files formData) = Inr mergedPdf"
  shows "POST_route e (Inr formData) =
     (case route_compress e None mergedPdf of
        Inl err \<Rightarrow> json_response 500 ''Failed to merge PDFs'' (Some (error_details err))
      | Inr mergedBytes \<Rightarrow> route_success None mergedBytes)"
proof -
  from assms(1) have v: "\<not> js_lt (parseInt (level_text formData)) 0"
    "\<not> js_gt (parseInt (level_text formData)) 2"
    by (simp_all add: js_lt_def js_gt_def)
  from route_after_merge [OF assms(2) v assms(3)] assms(1) show ?thesis
    by (simp cong: sum.case_cong)
qed

lemma out_of_range_is_rejected:
  assumes "parseInt (level_text formData) = Some n" and "n < 0 \<or> 2 < n"
    and "files formData \<noteq> []"
  shows "POST_route e (Inr formData) = json_response 400 ''Invalid compression level.'' None"
    and "POST_part_001 e (Inr formData) w =
           (json_response 400 ''Invalid compression level.'' None, w)"
  using assms
  by (auto simp: POST_route_def route_try_def POST_part_001_def part_001_try_def cleanup_def
        js_lt_def js_gt_def)

lemma empty_merge_is_saved_with_default_page:
  assumes "files formData \<noteq> []"
    and "merge_loop e (PDFDocument_create e) (files formData) = Inr mergedPdf"
    and "pages mergedPdf = []"
    and "parseInt (level_text formData) = Some 0"
  shows "payload (POST_route e (Inr formData)) =
           Binary (pdf_write e True 50 (mergedPdf\<lparr>pages := [DefaultPage]\<rparr>))"
    and "payload (fst (POST_part_001 e (Inr formData) w)) =
           Binary (pdf_write e True 50 (mergedPdf\<lparr>pages := [DefaultPage]\<rparr>))"
proof -
  from assms(4) have v: "\<not> js_lt (parseInt (level_text formData)) 0"
    "\<not> js_gt (parseInt (level_text formData)) 2"
    by (simp_all add: js_lt_def js_gt_def)
  from route_after_merge [OF assms(1) v assms(2)] assms(3,4)
  show "payload (POST_route e (Inr formData)) =
           Binary (pdf_write e True 50 (mergedPdf\<lparr>pages := [DefaultPage]\<rparr>))"
    by (simp add: route_compress_def route_success_def save_def no_options_def addPage_def Let_def)
  from part_001_after_merge [OF assms(1) v assms(2), of w] assms(3,4)
  show "payload (fst (POST_part_001 e (Inr formData) w)) =
           Binary (pdf_write e True 50 (mergedPdf\<lparr>pages := [DefaultPage]\<rparr>))"
    by (simp add: POST_part_001_def save_def no_options_def addPage_def Let_def)
qed

lemma output_is_concatenation_when_nonempty:
  assumes fs: "files formData \<noteq> []"
    and parses: "\<forall>f \<in> set (files formData). \<not> isl (PDFDocument_load e f)"
    and nonempty: "concat (map (input_pages e) (files formData)) \<noteq> []"
    and level: "parseInt (level_text formData) = Some 0"
  shows "payload (POST_route e (Inr formData)) =
           Binary (pdf_write e True 50
             \<lparr>pages = concat (map (input_pages e) (files formData)), info = created_info e\<rparr>)"
    and "payload (fst (POST_part_001 e (Inr formData) w)) =
           Binary (pdf_write e True 50
             \<lparr>pages = concat (map (input_pages e) (files formData)), info = created_info e\<rparr>)"
proof -
  from merge_loop_succeeds [OF parses]
  obtain m where m: "merge_loop e (PDFDocument_create e) (files formData) = Inr m" by blast
  from merge_loop_result [OF m]
  have "pages m = concat (map (input_pages e) (files formData))" "info m = created_info e"
    by (simp_all add: PDFDocument_create_def)
  then have eq: "m = \<lparr>pages = concat (map (input_pages e) (files formData)), info = created_info e\<rparr>"
    by simp
  from eq nonempty have ne: "pages m \<noteq> []" by simp
  from merged_document_is_written(2) [OF fs m level ne] eq
  show "payload (POST_route e (Inr formData)) =
           Binary (pdf_write e True 50
             \<lparr>pages = concat (map (input_pages e) (files formData)), info = created_info e\<rparr>)"
    by (simp add: route_success_def)
  from merged_document_is_written(3) [OF fs m level ne, of w] eq
  show "payload (fst (POST_part_001 e (Inr formData) w)) =
           Binary (pdf_write e True 50
             \<lparr>pages = concat (map (input_pages e) (files formData)), info = created_info e\<rparr>)"
    by simp
qed

section \<open>The pages of the output\<close>

text \<open>
  Claim C1, evaluated at a request of two parseable files that have no page, the level
  field absent. The inputs' page sequences concatenate to the empty sequence and their
  page counts sum to 0, but the body both handlers return is the serialization of a
  document with one page, the blank page that the plain \<^verbatim>\<open>save()\<close> adds to a document
  without pages: a page was added and the output page count is not the sum. With at
  least one page among the inputs the body at level 0 is the serialization of exactly
  the concatenation (lemma \<open>output_is_concatenation_when_nonempty\<close>).
\<close>

theorem all_empty_inputs_gain_a_page:
  "\<not> isl (PDFDocument_load toy_env ''%PDF|'')
   \<and> concat (map (input_pages toy_env) [''%PDF|'', ''%PDF|'']) = []
   \<and> sum_list (map (\<lambda>f. length (input_pages toy_env f)) [''%PDF|'', ''%PDF|'']) = 0
   \<and> POST_route toy_env (Inr \<lparr>files = [''%PDF|'', ''%PDF|''], compressionLevel = None\<rparr>)
       = \<lparr>status = 200,
          headers =
            [(''Content-Type'', ''application/pdf''),
             (''Content-Disposition'',
                ''attachment; filename='' @ [CHR 0x22] @ ''merged.pdf'' @ [CHR 0x22]),
             (''Content-Length'', ''6''),
             (''X-Compression-Level'', ''0'')],
          payload = Binary ''%PDF|_''\<rparr>
   \<and> payload (fst (POST_part_001 toy_env
         (Inr \<lparr>files = [''%PDF|'', ''%PDF|''], compressionLevel = None\<rparr>) empty_world))
       = Binary ''%PDF|_''
   \<and> pdf_write toy_env True 50 \<lparr>pages = [DefaultPage], info = no_info\<rparr> = ''%PDF|_''
   \<and> PDFDocument_load toy_env ''%PDF|_'' = Inr \<lparr>pages = [DefaultPage], info = no_info\<rparr>"
  by (simp add: toy_simps parse_simps handler_simps decimal.simps)

section \<open>No compression\<close>

text \<open>
  Claim C2. When the level of a request is 0, the handler of part_001 leaves the file
  system as it was and calls nothing but the library's plain \<^verbatim>\<open>save()\<close>: no command is
  run, so the external compressor is neither probed nor invoked (the handler of route.ts
  has no access to a shell or a file system at all). When the merge succeeds, both
  handlers answer 200 and the body of each response is exactly the bytes of that plain
  save of the merged document.
\<close>

theorem level0_plain_save:
  assumes "parseInt (level_text formData) = Some 0"
  shows "disk (snd (POST_part_001 e (Inr formData) w)) = disk w
    \<and> (calls (snd (POST_part_001 e (Inr formData) w)) = calls w
        \<or> calls (snd (POST_part_001 e (Inr formData) w)) = calls w @ [Save no_options])
    \<and> (files formData \<noteq> [] \<and> merge_loop e (PDFDocument_create e) (files formData) = Inr mergedPdf
        \<longrightarrow> payload (POST_route e (Inr formData)) = Binary (snd (save e no_options mergedPdf))
          \<and> status (POST_route e (Inr formData)) = 200
          \<and> payload (fst (POST_part_001 e (Inr formData) w)) =
              Binary (snd (save e no_options mergedPdf))
          \<and> status (fst (POST_part_001 e (Inr formData) w)) = 200
          \<and> fst (POST_part_001 e (Inr formData) w) =
              \<lparr>status = 200,
               headers = plain_headers ''merged.pdf'' (snd (save e no_options mergedPdf)),
               payload = Binary (snd (save e no_options mergedPdf))\<rparr>)"
proof -
  let ?w' = "snd (POST_part_001 e (Inr formData) w)"
  have quiet: "disk ?w' = disk w \<and> (calls ?w' = calls w \<or> calls ?w' = calls w @ [Save no_options])"
    using assms
    by (auto simp: POST_part_001_def part_001_try_def Let_def cleanup_def record_call_def
             split: sum.splits prod.splits)
  have ok: "payload (POST_route e (Inr formData)) = Binary (snd (save e no_options mergedPdf))
      \<and> status (POST_route e (Inr formData)) = 200
      \<and> payload (fst (POST_part_001 e (Inr formData) w)) =
          Binary (snd (save e no_options mergedPdf))
      \<and> status (fst (POST_part_001 e (Inr formData) w)) = 200
      \<and> fst (POST_part_001 e (Inr formData) w) =
          \<lparr>status = 200,
           headers = plain_headers ''merged.pdf'' (snd (save e no_options mergedPdf)),
           payload = Binary (snd (save e no_options mergedPdf))\<rparr>"
    if "files formData \<noteq> []" "merge_loop e (PDFDocument_create e) (files formData) = Inr mergedPdf"
  proof -
    from assms have v: "\<not> js_lt (parseInt (level_text formData)) 0"
      "\<not> js_gt (parseInt (level_text formData)) 2"
      by (simp_all add: js_lt_def js_gt_def)
    show ?thesis
      using route_after_merge [OF that(1) v that(2)] part_001_after_merge [OF that(1) v that(2), of w]
        assms
      by (simp add: route_compress_def route_success_def POST_part_001_def)
  qed
  from quiet ok show ?thesis by blast
qed

text \<open>
  Claim C2 at a concrete request: two files, the level field absent, in a world where
  the external compressor is installed and would succeed.
\<close>

theorem level0_plain_save_witness:
  "parseInt (level_text \<lparr>files = [''%PDF|ab'', ''%PDF|c''], compressionLevel = None\<rparr>) = Some 0
   \<and> disk (snd (POST_part_001 toy_env_gs_works
        (Inr \<lparr>files = [''%PDF|ab'', ''%PDF|c''], compressionLevel = None\<rparr>) empty_world)) = Map.empty
   \<and> calls (snd (POST_part_001 toy_env_gs_works
        (Inr \<lparr>files = [''%PDF|ab'', ''%PDF|c''], compressionLevel = None\<rparr>) empty_world))
       = [Save no_options]
   \<and> payload (POST_route toy_env_gs_works
        (Inr \<lparr>files = [''%PDF|ab'', ''%PDF|c''], compressionLevel = None\<rparr>))
       = Binary ''%PDF|abc''
   \<and> status (POST_route toy_env_gs_works
        (Inr \<lparr>files = [''%PDF|ab'', ''%PDF|c''], compressionLevel = None\<rparr>)) = 200
   \<and> payload (fst (POST_part_001 toy_env_gs_works
        (Inr \<lparr>files = [''%PDF|ab'', ''%PDF|c''], compressionLevel = None\<rparr>) empty_world))
       = Binary ''%PDF|abc''"
  using level0_plain_save
    [of "\<lparr>files = [''%PDF|ab'', ''%PDF|c''], compressionLevel = None\<rparr>" toy_env_gs_works
        empty_world "\<lparr>pages = [Page ''a'', Page ''b'', Page ''c''], info = no_info\<rparr>"]
  by (simp add: toy_simps parse_simps handler_simps)

text \<open>
  Claim C10 as stated fails: at level 0 on the same single file that is not a PDF, the
  two handlers return different bodies, for the error texts of their catch blocks
  differ.
\<close>

theorem level0_handlers_agree_counterexample:
  "parseInt (level_text \<lparr>files = [''junk''], compressionLevel = Some ''0''\<rparr>) = Some 0
   \<and> payload (POST_route toy_env (Inr \<lparr>files = [''junk''], compressionLevel = Some ''0''\<rparr>))
       = Json ''Failed to merge PDFs'' (Some ''No PDF header found'')
   \<and> payload (fst (POST_part_001 toy_env
         (Inr \<lparr>files = [''junk''], compressionLevel = Some ''0''\<rparr>) empty_world))
       = Json ''Failed to process PDFs'' (Some ''No PDF header found'')
   \<and> payload (POST_route toy_env (Inr \<lparr>files = [''junk''], compressionLevel = Some ''0''\<rparr>))
       \<noteq> payload (fst (POST_part_001 toy_env
             (Inr \<lparr>files = [''junk''], compressionLevel = Some ''0''\<rparr>) empty_world))"
  by (simp add: toy_simps parse_simps handler_simps)

text \<open>
  Claim C10, amended. At level 0, on the same files and in the same environment (the
  same metadata of the created document), the two handlers return the same body and the
  same status whenever every file parses: both serialize the document of the same merge
  loop with the default save. When some file does not parse, both answer 500 with the
  same details, the message of the same error, under the two different error texts.
\<close>

theorem level0_handlers_agree:
  assumes "parseInt (level_text formData) = Some 0"
  shows "((\<forall>f \<in> set (files formData). \<not> isl (PDFDocument_load e f)) \<longrightarrow>
            payload (POST_route e (Inr formData)) = payload (fst (POST_part_001 e (Inr formData) w))
          \<and> status (POST_route e (Inr formData)) = status (fst (POST_part_001 e (Inr formData) w)))
    \<and> ((\<forall>f \<in> set (files formData). \<not> isl (PDFDocument_load e f)) \<and> files formData \<noteq> [] \<longrightarrow>
            (\<exists>mergedPdf. merge_loop e (PDFDocument_create e) (files formData) = Inr mergedPdf
               \<and> payload (POST_route e (Inr formData)) = Binary (snd (save e no_options mergedPdf))
               \<and> payload (fst (POST_part_001 e (Inr formData) w)) =
                   Binary (snd (save e no_options mergedPdf))))
    \<and> ((\<exists>f \<in> set (files formData). isl (PDFDocument_load e f)) \<longrightarrow>
            (\<exists>err. payload (POST_route e (Inr formData)) =
                     Json ''Failed to merge PDFs'' (Some (error_details err))
               \<and> payload (fst (POST_part_001 e (Inr formData) w)) =
                     Json ''Failed to process PDFs'' (Some (error_details err))
               \<and> status (POST_route e (Inr formData)) = 500
               \<and> status (fst (POST_part_001 e (Inr formData) w)) = 500))"
proof -
  from assms have v: "\<not> js_lt (parseInt (level_text formData)) 0"
      "\<not> js_gt (parseInt (level_text formData)) 2"
    by (simp_all add: js_lt_def js_gt_def)
  have built: "\<exists>mergedPdf. merge_loop e (PDFDocument_create e) (files formData) = Inr mergedPdf
               \<and> payload (POST_route e (Inr formData)) = Binary (snd (save e no_options mergedPdf))
               \<and> payload (fst (POST_part_001 e (Inr formData) w)) =
                   Binary (snd (save e no_options mergedPdf))
               \<and> status (POST_route e (Inr formData)) = 200
               \<and> status (fst (POST_part_001 e (Inr formData) w)) = 200"
    if p: "\<forall>f \<in> set (files formData). \<not> isl (PDFDocument_load e f)" and ne: "files formData \<noteq> []"
  proof -
    from merge_loop_succeeds [OF p]
    obtain m where m: "merge_loop e (PDFDocument_create e) (files formData) = Inr m" by blast
    show ?thesis
      using route_after_merge [OF ne v m] part_001_after_merge [OF ne v m, of w] assms m
      by (simp add: route_compress_def POST_part_001_def route_success_def)
  qed
  have same: "payload (POST_route e (Inr formData)) = payload (fst (POST_part_001 e (Inr formData) w))
          \<and> status (POST_route e (Inr formData)) = status (fst (POST_part_001 e (Inr formData) w))"
    if p: "\<forall>f \<in> set (files formData). \<not> isl (PDFDocument_load e f)"
  proof (cases "files formData = []")
    case True
    then show ?thesis
      by (simp add: POST_route_def route_try_def POST_part_001_def part_001_try_def Let_def
            json_response_def)
  next
    case False
    from built [OF p False] show ?thesis by auto
  qed
  have differ: "\<exists>err. payload (POST_route e (Inr formData)) =
                     Json ''Failed to merge PDFs'' (Some (error_details err))
               \<and> payload (fst (POST_part_001 e (Inr formData) w)) =
                     Json ''Failed to process PDFs'' (Some (error_details err))
               \<and> status (POST_route e (Inr formData)) = 500
               \<and> status (fst (POST_part_001 e (Inr formData) w)) = 500"
    if q: "\<exists>f \<in> set (files formData). isl (PDFDocument_load e f)"
  proof -
    from q have ne: "files formData \<noteq> []" by auto
    from merge_loop_fails [OF q]
    obtain err where err: "merge_loop e (PDFDocument_create e) (files formData) = Inl err"
      by blast
    from route_merge_fails [OF ne v err] part_001_merge_fails [OF ne v err, of w]
    show ?thesis by (auto simp: json_response_def)
  qed
  from same built differ show ?thesis by blast
qed

text \<open>
  Claim C10, amended, at two concrete requests: one whose files parse, one whose file
  does not.
\<close>

theorem level0_handlers_agree_witness:
  "payload (POST_route toy_env (Inr \<lparr>files = [''%PDF|ab'', ''%PDF|c''], compressionLevel = Some ''0''\<rparr>))
     = Binary ''%PDF|abc''
   \<and> payload (fst (POST_part_001 toy_env
        (Inr \<lparr>files = [''%PDF|ab'', ''%PDF|c''], compressionLevel = Some ''0''\<rparr>) empty_world))
     = Binary ''%PDF|abc''
   \<and> status (POST_route toy_env (Inr \<lparr>files = [''junk''], compressionLevel = Some ''0''\<rparr>)) = 500
   \<and> status (fst (POST_part_001 toy_env
        (Inr \<lparr>files = [''junk''], compressionLevel = Some ''0''\<rparr>) empty_world)) = 500"
proof -
  have a: "payload (POST_route toy_env
              (Inr \<lparr>files = [''%PDF|ab'', ''%PDF|c''], compressionLevel = Some ''0''\<rparr>))
            = Binary ''%PDF|abc''
     \<and> payload (fst (POST_part_001 toy_env
          (Inr \<lparr>files = [''%PDF|ab'', ''%PDF|c''], compressionLevel = Some ''0''\<rparr>) empty_world))
        = Binary ''%PDF|abc''"
    using level0_handlers_agree
      [of "\<lparr>files = [''%PDF|ab'', ''%PDF|c''], compressionLevel = Some ''0''\<rparr>" toy_env empty_world]
    by (simp add: toy_simps parse_simps handler_simps)
  have b: "status (POST_route toy_env (Inr \<lparr>files = [''junk''], compressionLevel = Some ''0''\<rparr>)) = 500
     \<and> status (fst (POST_part_001 toy_env
          (Inr \<lparr>files = [''junk''], compressionLevel = Some ''0''\<rparr>) empty_world)) = 500"
    using level0_handlers_agree
      [of "\<lparr>files = [''junk''], compressionLevel = Some ''0''\<rparr>" toy_env empty_world]
    by (simp add: toy_simps parse_simps handler_simps)
  from a b show ?thesis by blast
qed

section \<open>Validation and failures\<close>

text \<open>
  Claim C5, evaluated at the level field \<^verbatim>\<open>"abc"\<close>. \<^verbatim>\<open>parseInt\<close> yields \<^verbatim>\<open>NaN\<close>, both
  comparisons of the validation are false, and the request is processed: route.ts takes
  its last branch and answers 200 with the level header \<^verbatim>\<open>NaN\<close>; part_001, on a host
  without \<^verbatim>\<open>gs\<close>, answers 200 through the fallback. The claim expects status 400 and no
  document processed.
\<close>

theorem non_numeric_level_is_processed:
  "parseInt ''abc'' = None
   \<and> POST_route toy_env (Inr \<lparr>files = [''%PDF|ab''], compressionLevel = Some ''abc''\<rparr>)
     = \<lparr>status = 200,
        headers =
          [(''Content-Type'', ''application/pdf''),
           (''Content-Disposition'', ''attachment; filename='' @ [CHR 0x22] @ ''merged.pdf'' @ [CHR 0x22]),
           (''Content-Length'', ''17''),
           (''X-Compression-Level'', ''NaN'')],
        payload = Binary ''%PDFMerged PDF|ab''\<rparr>
   \<and> status (fst (POST_part_001 toy_env
        (Inr \<lparr>files = [''%PDF|ab''], compressionLevel = Some ''abc''\<rparr>) empty_world)) = 200
   \<and> payload (fst (POST_part_001 toy_env
        (Inr \<lparr>files = [''%PDF|ab''], compressionLevel = Some ''abc''\<rparr>) empty_world))
     = Binary ''%PDF|ab''"
  by (simp add: toy_simps parse_simps handler_simps decimal.simps)

text \<open>
  Claim C6 as stated fails: a request with an unparseable file is answered with status
  500, not 400.
\<close>

theorem unparseable_input_counterexample:
  "isl (PDFDocument_load toy_env ''junk'')
   \<and> status (POST_route toy_env
        (Inr \<lparr>files = [''%PDF|ab'', ''junk''], compressionLevel = Some ''0''\<rparr>)) = 500
   \<and> status (fst (POST_part_001 toy_env
        (Inr \<lparr>files = [''%PDF|ab'', ''junk''], compressionLevel = Some ''0''\<rparr>) empty_world)) = 500"
  by (simp add: toy_simps parse_simps handler_simps)

text \<open>
  Claim C6, amended. When a request passes validation and one of its files does not
  parse, the merge loop stops with the library's error and both handlers answer with
  status 500 and a JSON error object carrying the error's message: no bytes of a partial
  merge are returned, and the handler of part_001 has touched neither the file system
  nor any collaborator.
\<close>

theorem unparseable_input_gives_500:
  assumes "\<not> js_lt (parseInt (level_text formData)) 0"
    and "\<not> js_gt (parseInt (level_text formData)) 2"
    and "\<exists>f \<in> set (files formData). isl (PDFDocument_load e f)"
  shows "\<exists>err. merge_loop e (PDFDocument_create e) (files formData) = Inl err
      \<and> POST_route e (Inr formData) =
          json_response 500 ''Failed to merge PDFs'' (Some (error_details err))
      \<and> POST_part_001 e (Inr formData) w =
          (json_response 500 ''Failed to process PDFs'' (Some (error_details err)), w)"
proof -
  from assms(3) have ne: "files formData \<noteq> []" by auto
  from merge_loop_fails [OF assms(3)]
  obtain err where err: "merge_loop e (PDFDocument_create e) (files formData) = Inl err"
    by blast
  show ?thesis
    using route_merge_fails [OF ne assms(1,2) err] part_001_merge_fails [OF ne assms(1,2) err] err
    by blast
qed

text \<open>
  Claim C6, amended, at a concrete request whose second file is not a PDF.
\<close>

theorem unparseable_input_gives_500_witness:
  "isl (PDFDocument_load toy_env ''junk'')
   \<and> POST_route toy_env (Inr \<lparr>files = [''%PDF|ab'', ''junk''], compressionLevel = Some ''1''\<rparr>)
      = json_response 500 ''Failed to merge PDFs'' (Some ''No PDF header found'')
   \<and> POST_part_001 toy_env
        (Inr \<lparr>files = [''%PDF|ab'', ''junk''], compressionLevel = Some ''1''\<rparr>) empty_world
      = (json_response 500 ''Failed to process PDFs'' (Some ''No PDF header found''), empty_world)"
  using unparseable_input_gives_500
    [of "\<lparr>files = [''%PDF|ab'', ''junk''], compressionLevel = Some ''1''\<rparr>" toy_env empty_world]
  by (simp add: toy_simps parse_simps handler_simps)

section \<open>The external compressor\<close>

text \<open>
  Claim C3, evaluated at level 1 with no \<^verbatim>\<open>gs\<close> installed. The handler falls back to
  \<^verbatim>\<open>save\<close> with \<^verbatim>\<open>objectsPerTick: 50\<close> and answers 200, but the response has exactly the
  three headers Content-Type, Content-Disposition and Content-Length: nothing in it
  names the method that ran, whereas the response of the external path carries
  \<^verbatim>\<open>X-Compression-Method\<close> and \<^verbatim>\<open>X-Compression-Level\<close>.
\<close>

theorem fallback_response_names_no_method:
  "fst (POST_part_001 toy_env
      (Inr \<lparr>files = [''%PDF|ab''], compressionLevel = Some ''1''\<rparr>) empty_world)
     = \<lparr>status = 200,
        headers =
          [(''Content-Type'', ''application/pdf''),
           (''Content-Disposition'',
              ''attachment; filename='' @ [CHR 0x22] @ ''merged_compressed.pdf'' @ [CHR 0x22]),
           (''Content-Length'', ''7'')],
        payload = Binary ''%PDF|ab''\<rparr>
   \<and> calls (snd (POST_part_001 toy_env
      (Inr \<lparr>files = [''%PDF|ab''], compressionLevel = Some ''1''\<rparr>) empty_world))
     = [Save no_options, MadeTempDir ''/tmp/pdf-compress-AbC123'',
        WriteFile ''/tmp/pdf-compress-AbC123/input.pdf'', Exec ''gs --version'',
        Save \<lparr>useObjectStreams = Some True, addDefaultPage = None, objectsPerTick = Some 50\<rparr>,
        Rm ''/tmp/pdf-compress-AbC123'']
   \<and> map fst (headers (fst (POST_part_001 toy_env_gs_works
      (Inr \<lparr>files = [''%PDF|ab''], compressionLevel = Some ''1''\<rparr>) empty_world)))
     = [''Content-Type'', ''Content-Disposition'', ''Content-Length'',
        ''X-Compression-Method'', ''X-Compression-Level'']"
  by (simp add: toy_simps parse_simps handler_simps decimal.simps)

text \<open>
  Claim C4. At level 1 or 2, when the temp directory and the input file were written,
  the probe succeeded, and the compressor's command is rejected or leaves no file at the
  output path, the response is the JSON error object with status 500, and the calls
  made are exactly: the plain save, the temp directory, the input file, the probe, the
  command, the read of the output (when the command was not rejected) and the removal of
  the temp directory. No \<^verbatim>\<open>save\<close> follows the command: there is no fallback.
\<close>

theorem external_failure_is_terminal:
  assumes level: "parseInt (level_text formData) = Some 1 \<or> parseInt (level_text formData) = Some 2"
    and files: "files formData \<noteq> []"
    and merged: "merge_loop e (PDFDocument_create e) (files formData) = Inr merged"
    and mk: "mkdtemp_suffix e = Inr suf"
    and wr: "writeFile_error e = None"
    and dir: "dir = path_join (tmpdir e) ''pdf-compress-'' @ suf"
    and inp: "inp = path_join dir ''input.pdf''"
    and outp: "outp = path_join dir ''output.pdf''"
    and cmd: "cmd = gsCommand (parseInt (level_text formData)) outp inp"
    and probe: "run_exec e ''gs --version''
                  ((disk w)(dir \<mapsto> Dir, inp \<mapsto> File (snd (save e no_options merged)))) = (None, d1)"
    and run: "run_exec e cmd d1 = (r, d2)"
    and failed: "r \<noteq> None \<or> (\<forall>content. d2 outp \<noteq> Some (File content))"
  shows "(\<exists>err. fst (POST_part_001 e (Inr formData) w) =
            json_response 500 ''Failed to process PDFs'' (Some (error_details err)))
    \<and> calls (snd (POST_part_001 e (Inr formData) w)) =
        calls w @ [Save no_options, MadeTempDir dir, WriteFile inp, Exec ''gs --version'', Exec cmd]
          @ (if r = None then [ReadFile outp] else []) @ [Rm dir]"
proof -
  let ?level = "parseInt (level_text formData)"
  let ?w2 = "w\<lparr>disk := (disk w)(dir \<mapsto> Dir, inp \<mapsto> File (snd (save e no_options merged))),
               calls := calls w @ [Save no_options, MadeTempDir dir, WriteFile inp]\<rparr>"
  from level12_valid [OF level]
  have v: "\<not> js_lt ?level 0" "\<not> js_gt ?level 2" "?level \<noteq> Some 0" by simp_all
  have tr: "part_001_try e (Inr formData) w =
      (case after_probe e ?level (fst (save e no_options merged)) inp outp ?w2 of
         (r, w3) \<Rightarrow> (r, Some dir, w3))"
    using part_001_after_merge [OF files v(1,2) merged, of w] v(3)
      compress_external_reaches_probe [OF mk wr dir inp outp]
    by (simp add: record_call_def)
  from probe have probe': "run_exec e ''gs --version'' (disk ?w2) = (None, d1)" by simp
  from run cmd have run': "run_exec e (gsCommand ?level outp inp) d1 = (r, d2)" by simp
  from after_probe_external_fails [OF probe' run' failed, of "fst (save e no_options merged)"]
  obtain err where ap: "after_probe e ?level (fst (save e no_options merged)) inp outp ?w2 =
     (Inl err, \<lparr>disk = d2, calls = calls ?w2 @ [Exec ''gs --version'', Exec (gsCommand ?level outp inp)]
                 @ (if r = None then [ReadFile outp] else [])\<rparr>)"
    by blast
  have "fst (POST_part_001 e (Inr formData) w) =
          json_response 500 ''Failed to process PDFs'' (Some (error_details err))"
    by (simp add: POST_part_001_def tr ap)
  moreover have "calls (snd (POST_part_001 e (Inr formData) w)) =
        calls w @ [Save no_options, MadeTempDir dir, WriteFile inp, Exec ''gs --version'', Exec cmd]
          @ (if r = None then [ReadFile outp] else []) @ [Rm dir]"
    by (simp add: POST_part_001_def tr ap cleanup_def fs_rm_def record_call_def cmd
          split: option.splits)
  ultimately show ?thesis by blast
qed

text \<open>
  Claim C4 at a concrete request, in a world whose \<^verbatim>\<open>gs\<close> answers the probe and rejects
  every other command.
\<close>

theorem external_failure_is_terminal_witness:
  "parseInt (level_text \<lparr>files = [''%PDF|ab''], compressionLevel = Some ''2''\<rparr>) = Some 2
   \<and> fst (POST_part_001 toy_env_gs_fails
            (Inr \<lparr>files = [''%PDF|ab''], compressionLevel = Some ''2''\<rparr>) empty_world)
       = json_response 500 ''Failed to process PDFs'' (Some ''Command failed'')
   \<and> calls (snd (POST_part_001 toy_env_gs_fails
            (Inr \<lparr>files = [''%PDF|ab''], compressionLevel = Some ''2''\<rparr>) empty_world))
       = [Save no_options, MadeTempDir ''/tmp/pdf-compress-AbC123'',
          WriteFile ''/tmp/pdf-compress-AbC123/input.pdf'', Exec ''gs --version'',
          Exec (gsCommand (Some 2) ''/tmp/pdf-compress-AbC123/output.pdf''
                  ''/tmp/pdf-compress-AbC123/input.pdf''),
          Rm ''/tmp/pdf-compress-AbC123'']"
  using external_failure_is_terminal
    [where e = toy_env_gs_fails
       and formData = "\<lparr>files = [''%PDF|ab''], compressionLevel = Some ''2''\<rparr>"
       and w = empty_world
       and merged = "\<lparr>pages = [Page ''a'', Page ''b''], info = no_info\<rparr>"
       and suf = "''AbC123''"
       and dir = "''/tmp/pdf-compress-AbC123''"
       and inp = "''/tmp/pdf-compress-AbC123/input.pdf''"
       and outp = "''/tmp/pdf-compress-AbC123/output.pdf''"
       and cmd = "gsCommand (Some 2) ''/tmp/pdf-compress-AbC123/output.pdf''
                  ''/tmp/pdf-compress-AbC123/input.pdf''"
       and ?d1.0 = "[''/tmp/pdf-compress-AbC123'' \<mapsto> Dir,
                 ''/tmp/pdf-compress-AbC123/input.pdf'' \<mapsto> File ''%PDF|ab'']"
       and r = "Some (Error ''Command failed'')"
       and ?d2.0 = "[''/tmp/pdf-compress-AbC123'' \<mapsto> Dir,
                 ''/tmp/pdf-compress-AbC123/input.pdf'' \<mapsto> File ''%PDF|ab'']"]
  by (simp add: toy_simps parse_simps handler_simps)

text \<open>
  Claim C9 as stated fails: when \<^verbatim>\<open>rm\<close> is rejected, the temp directory the request
  created is still on disk after the response (status 200) is returned.
\<close>

theorem cleanup_is_attempted_counterexample:
  "MadeTempDir ''/tmp/pdf-compress-AbC123'' \<in> set (calls (snd (POST_part_001 toy_env_rm_fails
        (Inr \<lparr>files = [''%PDF|ab''], compressionLevel = Some ''1''\<rparr>) empty_world)))
   \<and> disk (snd (POST_part_001 toy_env_rm_fails
        (Inr \<lparr>files = [''%PDF|ab''], compressionLevel = Some ''1''\<rparr>) empty_world))
        ''/tmp/pdf-compress-AbC123'' = Some Dir
   \<and> status (fst (POST_part_001 toy_env_rm_fails
        (Inr \<lparr>files = [''%PDF|ab''], compressionLevel = Some ''1''\<rparr>) empty_world)) = 200"
  by (simp add: toy_simps parse_simps handler_simps)

text \<open>
  Claim C9, amended. Whether \<^verbatim>\<open>rm\<close> fails or not never changes the response. Whenever
  the request created a temp directory, the last call of the request is \<^verbatim>\<open>rm\<close> on that
  directory, on every exit path; and when that \<^verbatim>\<open>rm\<close> succeeds, neither the directory
  nor anything below it is left on disk.
\<close>

theorem cleanup_is_attempted:
  "fst (POST_part_001 (e\<lparr>rm_error := x\<rparr>) req w) = fst (POST_part_001 e req w)
   \<and> (\<forall>dir. MadeTempDir dir \<in> set (new_calls w (snd (POST_part_001 e req w))) \<longrightarrow>
         last (calls (snd (POST_part_001 e req w))) = Rm dir
         \<and> (rm_error e = None \<longrightarrow>
               disk (snd (POST_part_001 e req w)) dir = None
               \<and> (\<forall>p. prefix (dir @ ''/'') p \<longrightarrow> disk (snd (POST_part_001 e req w)) p = None)))"
proof -
  obtain r t w1 where tr: "part_001_try e req w = (r, t, w1)"
    by (cases "part_001_try e req w") auto
  from try_calls [OF tr] obtain cs where
    cs: "calls w1 = calls w @ cs" "\<forall>d. MadeTempDir d \<in> set cs \<longleftrightarrow> t = Some d"
    by blast
  have resp: "fst (POST_part_001 (e\<lparr>rm_error := x\<rparr>) req w) = fst (POST_part_001 e req w)"
    by (simp add: POST_part_001_def try_ignores_rm tr)
  have w': "snd (POST_part_001 e req w) = cleanup e t w1"
    by (simp add: POST_part_001_def tr)
  have "last (calls (cleanup e t w1)) = Rm dir
         \<and> (rm_error e = None \<longrightarrow>
               disk (cleanup e t w1) dir = None
               \<and> (\<forall>p. prefix (dir @ ''/'') p \<longrightarrow> disk (cleanup e t w1) p = None))"
    if "MadeTempDir dir \<in> set (new_calls w (cleanup e t w1))" for dir
  proof -
    have "t = Some dir"
    proof (cases t)
      case None
      with that cs show ?thesis by (simp add: cleanup_def new_calls_def)
    next
      case (Some d)
      with that cs show ?thesis
        by (auto simp: cleanup_def new_calls_def fs_rm_def record_call_def split: option.splits)
    qed
    then show ?thesis
      by (auto simp: cleanup_def fs_rm_def record_call_def remove_tree_def split: option.splits)
  qed
  with resp w' show ?thesis by simp
qed

text \<open>
  Claim C9, amended, at a concrete request that takes the fallback.
\<close>

theorem cleanup_is_attempted_witness:
  "fst (POST_part_001 (toy_env\<lparr>rm_error := Some (Error ''EBUSY: resource busy or locked'')\<rparr>)
        (Inr \<lparr>files = [''%PDF|ab''], compressionLevel = Some ''1''\<rparr>) empty_world)
     = fst (POST_part_001 toy_env
        (Inr \<lparr>files = [''%PDF|ab''], compressionLevel = Some ''1''\<rparr>) empty_world)
   \<and> MadeTempDir ''/tmp/pdf-compress-AbC123'' \<in> set (new_calls empty_world (snd (POST_part_001 toy_env
        (Inr \<lparr>files = [''%PDF|ab''], compressionLevel = Some ''1''\<rparr>) empty_world)))
   \<and> last (calls (snd (POST_part_001 toy_env
        (Inr \<lparr>files = [''%PDF|ab''], compressionLevel = Some ''1''\<rparr>) empty_world)))
       = Rm ''/tmp/pdf-compress-AbC123''
   \<and> disk (snd (POST_part_001 toy_env
        (Inr \<lparr>files = [''%PDF|ab''], compressionLevel = Some ''1''\<rparr>) empty_world))
        ''/tmp/pdf-compress-AbC123'' = None
   \<and> disk (snd (POST_part_001 toy_env
        (Inr \<lparr>files = [''%PDF|ab''], compressionLevel = Some ''1''\<rparr>) empty_world))
        ''/tmp/pdf-compress-AbC123/input.pdf'' = None"
proof -
  let ?req = "Inr \<lparr>files = [''%PDF|ab''], compressionLevel = Some ''1''\<rparr> :: request"
  let ?w' = "snd (POST_part_001 toy_env ?req empty_world)"
  let ?dir = "''/tmp/pdf-compress-AbC123''"
  note t = cleanup_is_attempted
    [where e = toy_env and x = "Some (Error ''EBUSY: resource busy or locked'')"
       and req = ?req and w = empty_world]
  have made: "MadeTempDir ?dir \<in> set (new_calls empty_world ?w')"
    by (simp add: toy_simps parse_simps handler_simps)
  have ok: "rm_error toy_env = None" by (simp add: toy_env_def)
  have pre: "prefix (?dir @ ''/'') ''/tmp/pdf-compress-AbC123/input.pdf''" by simp
  from t have same: "fst (POST_part_001 (toy_env\<lparr>rm_error := Some (Error ''EBUSY: resource busy or locked'')\<rparr>)
        ?req empty_world) = fst (POST_part_001 toy_env ?req empty_world)"
    by blast
  from t made ok have gone: "last (calls ?w') = Rm ?dir" "disk ?w' ?dir = None"
    "\<forall>p. prefix (?dir @ ''/'') p \<longrightarrow> disk ?w' p = None"
    by blast+
  from gone(3) pre have "disk ?w' ''/tmp/pdf-compress-AbC123/input.pdf'' = None" by blast
  with same made gone(1,2) show ?thesis by blast
qed

section \<open>The high level and empty documents\<close>




text \<open>
  Claim C8, evaluated at a single input with no page. The input contributes no page and
  the merged document has none, but the plain \<^verbatim>\<open>save()\<close> of level 0 adds the library's
  default page before writing: both handlers return a one-page document. Only the level
  1 branch of route.ts, which passes \<^verbatim>\<open>addDefaultPage: false\<close>, returns a zero-page one.
  Next to an input that has pages, the zero-page input adds nothing.
\<close>

theorem empty_merge_gets_default_page:
  "input_pages toy_env ''%PDF|'' = []
   \<and> merge_loop toy_env (PDFDocument_create toy_env) [''%PDF|'']
       = Inr \<lparr>pages = [], info = no_info\<rparr>
   \<and> payload (POST_route toy_env (Inr \<lparr>files = [''%PDF|''], compressionLevel = Some ''0''\<rparr>))
       = Binary (pdf_write toy_env True 50 \<lparr>pages = [DefaultPage], info = no_info\<rparr>)
   \<and> payload (fst (POST_part_001 toy_env
         (Inr \<lparr>files = [''%PDF|''], compressionLevel = Some ''0''\<rparr>) empty_world))
       = Binary (pdf_write toy_env True 50 \<lparr>pages = [DefaultPage], info = no_info\<rparr>)
   \<and> payload (POST_route toy_env (Inr \<lparr>files = [''%PDF|''], compressionLevel = Some ''1''\<rparr>))
       = Binary (pdf_write toy_env True 50 \<lparr>pages = [], info = no_info\<rparr>)
   \<and> payload (POST_route toy_env
         (Inr \<lparr>files = [''%PDF|'', ''%PDF|ab''], compressionLevel = Some ''0''\<rparr>))
       = Binary (pdf_write toy_env True 50 \<lparr>pages = [Page ''a'', Page ''b''], info = no_info\<rparr>)"
  by (simp add: toy_simps parse_simps handler_simps)

end
